theory Spec2Isabelle
  imports Main "HOL-Library.Log_Nat" "HOL-Library.Sublist"
begin

section \<open>LECO LoRA training orchestrator (train\_lora.py)\<close>

text \<open>
  The development embeds \<^verbatim>\<open>train\<close> of \<^verbatim>\<open>train_lora.py\<close>. The function is an
  orchestrator: it owns the control flow, the adapter activation scopes, the timestep
  arithmetic, the loss formula, the output path and the final clean-up, and it calls
  collaborators (\<^verbatim>\<open>model_util\<close>, \<^verbatim>\<open>train_util\<close>, \<^verbatim>\<open>lora\<close>, \<^verbatim>\<open>torch\<close>, \<^verbatim>\<open>wandb\<close>) for
  everything numeric. The collaborators are parameters of the model (a record of
  functions over an abstract tensor type \<open>'t\<close>, adapter parameter set \<open>'p\<close> and
  optimizer state \<open>'o\<close>); every call the source makes is an event of the run, in
  program order.
\<close>

subsection \<open>Constants and plain data\<close>

definition DEVICE_CUDA :: string where
  "DEVICE_CUDA = ''cuda''"

definition DDIM_STEPS :: int where
  "DDIM_STEPS = 50"

datatype dtype = Float32 | Float16 | BFloat16

datatype adapter_state = DISABLED | ENABLED

datatype error = UnboundLocalError string | IndexError | RuntimeError string

datatype pyval = PyStr string | PyInt int | PyFloat rat | PyBool bool | PyStrList "string list"

datatype path = Path string | PathJoin path string

text \<open>The arguments of \<^verbatim>\<open>train\<close> (lines 33-49). Python floats that are only handed on
  (\<^verbatim>\<open>alpha\<close>, \<^verbatim>\<open>lr\<close>, \<^verbatim>\<open>negative_guidance\<close>) are carried as the rational they denote.\<close>

record train_args =
  prompt :: string
  pretrained_model :: string
  modules :: "string list"
  iterations :: int
  neutral_prompt :: string
  rank :: int
  alpha :: rat
  negative_guidance :: rat
  lr :: rat
  save_path :: string
  v2 :: bool
  v_pred :: bool
  precision :: string
  scheduler_name :: string
  enable_wandb :: bool

text \<open>The defaults of the signature, for the arguments that have one.\<close>

definition default_args :: "string \<Rightarrow> string \<Rightarrow> string list \<Rightarrow> int \<Rightarrow> train_args" where
  "default_args p m ms n =
     \<lparr> prompt = p, pretrained_model = m, modules = ms, iterations = n,
       neutral_prompt = '''', rank = 4, alpha = 1, negative_guidance = 1,
       lr = 1 / 100000, save_path = ''./output'', v2 = False, v_pred = False,
       precision = ''bfloat16'', scheduler_name = ''lms'', enable_wandb = False \<rparr>"

text \<open>The dictionary assigned to \<^verbatim>\<open>wandb.config\<close> (lines 52-67), in source order.\<close>

definition wandb_config :: "train_args \<Rightarrow> (string \<times> pyval) list" where
  "wandb_config A =
     [ (''prompt'', PyStr (prompt A)),
       (''neutral_prompt'', PyStr (neutral_prompt A)),
       (''pretrained_model'', PyStr (pretrained_model A)),
       (''modules'', PyStrList (modules A)),
       (''iterations'', PyInt (iterations A)),
       (''rank'', PyInt (rank A)),
       (''alpha'', PyFloat (alpha A)),
       (''negative_guidance'', PyFloat (negative_guidance A)),
       (''lr'', PyFloat (lr A)),
       (''v2'', PyBool (v2 A)),
       (''v_pred'', PyBool (v_pred A)),
       (''precision'', PyStr (precision A)),
       (''scheduler_name'', PyStr (scheduler_name A)),
       (''save_path'', PyStr (save_path A)) ]"

text \<open>Lines 69-73: the working dtype. The chain has no \<^verbatim>\<open>else\<close> that raises: the
  initial assignment stands for every string that is neither of the two compared ones.\<close>

definition weight_dtype_of :: "string \<Rightarrow> dtype" where
  "weight_dtype_of p =
     (if p = ''float16'' then Float16
      else if p = ''bfloat16'' then BFloat16
      else Float32)"

text \<open>Line 203: \<^verbatim>\<open>prompt.replace(" ", "_")\<close> replaces every occurrence of the
  one-character pattern; line 206 appends the suffix in an f-string.\<close>

definition replace_char :: "char \<Rightarrow> char \<Rightarrow> string \<Rightarrow> string" where
  "replace_char old new s = map (\<lambda>c. if c = old then new else c) s"

definition concept_name_of :: "string \<Rightarrow> string" where
  "concept_name_of p = replace_char (CHR '' '') (CHR ''_'') p"

definition weights_file :: "train_args \<Rightarrow> path" where
  "weights_file A =
     PathJoin (Path (save_path A)) (concept_name_of (prompt A) @ ''_last.safetensors'')"

subsection \<open>Timestep arithmetic\<close>

text \<open>
  Line 127: \<^verbatim>\<open>torch.randint(1, DDIM_STEPS - 1, (1,)).item()\<close>. \<^verbatim>\<open>torch.randint(low, high, ...)\<close>
  reduces a raw draw of its generator into the half-open range: \<open>low + raw mod (high - low)\<close>
  (it requires \<open>low < high\<close>; the call site passes the constants 1 and 49).
\<close>

definition torch_randint :: "int \<Rightarrow> int \<Rightarrow> nat \<Rightarrow> int" where
  "torch_randint low high raw = low + int raw mod (high - low)"

text \<open>
  Line 148: \<^verbatim>\<open>int(timesteps_to * 1000 / DDIM_STEPS)\<close>. The product is an exact Python
  integer; \<^verbatim>\<open>/\<close> on two integers is true division, whose result is the binary64 number
  nearest to the exact quotient (ties to even); \<^verbatim>\<open>int\<close> truncates towards zero. A finite
  binary64 value is a rational, so floats are modelled as the rationals they denote and
  the rounding is written out: 53 significant bits, with the exponent range not
  modelled (the quotients here are far inside it).
\<close>

definition pow2 :: "int \<Rightarrow> rat" where
  "pow2 k = (if 0 \<le> k then 2 ^ nat k else 1 / 2 ^ nat (- k))"

definition round_half_even :: "rat \<Rightarrow> int" where
  "round_half_even q =
     (let f = \<lfloor>q\<rfloor>; r = q - of_int f
      in if r < 1 / 2 then f
         else if 1 / 2 < r then f + 1
         else if even f then f else f + 1)"

text \<open>\<open>ilog2 q\<close> is \<open>\<lfloor>log\<^sub>2 q\<rfloor>\<close> for a positive rational, from the bit lengths of
  numerator and denominator.\<close>

definition ilog2 :: "rat \<Rightarrow> int" where
  "ilog2 q =
     (let (n, d) = quotient_of q; k = bitlen n - bitlen d
      in if pow2 k \<le> q then k else k - 1)"

definition round_binary64 :: "rat \<Rightarrow> rat" where
  "round_binary64 q =
     (if q = 0 then 0
      else let e = ilog2 \<bar>q\<bar> - 52;
               m = round_half_even (\<bar>q\<bar> / pow2 e)
           in sgn q * of_int m * pow2 e)"

definition py_truediv :: "int \<Rightarrow> int \<Rightarrow> rat" where
  "py_truediv a b = round_binary64 (of_int a / of_int b)"

definition py_int :: "rat \<Rightarrow> int" where
  "py_int x = (if 0 \<le> x then \<lfloor>x\<rfloor> else \<lceil>x\<rceil>)"

text \<open>Python's one-argument \<^verbatim>\<open>round\<close> on a float: nearest integer, ties to even.\<close>

definition py_round :: "rat \<Rightarrow> int" where
  "py_round x = round_half_even x"

definition fine_timestep_index :: "int \<Rightarrow> int" where
  "fine_timestep_index timesteps_to = py_int (py_truediv (timesteps_to * 1000) DDIM_STEPS)"

text \<open>Line 147: indexing \<^verbatim>\<open>scheduler.timesteps\<close> with a Python integer. A negative index
  counts from the end; an index outside \<open>[-len, len)\<close> raises IndexError.\<close>

definition py_index :: "'a list \<Rightarrow> int \<Rightarrow> error + 'a" where
  "py_index xs i =
     (if 0 \<le> i \<and> i < int (length xs) then Inr (xs ! nat i)
      else if - int (length xs) \<le> i \<and> i < 0 then Inr (xs ! nat (int (length xs) + i))
      else Inl IndexError)"

subsection \<open>Events, state and collaborators\<close>

text \<open>One event per call that leaves \<^verbatim>\<open>train\<close>. Sampler calls record the adapter state
  and the gradient mode they run under, besides their arguments.\<close>

datatype ('t, 'p) event =
    WandbInit string
  | WandbConfig "(string \<times> pyval) list"
  | WandbLogIteration nat
  | WandbLogLoss 't
  | LoadModels string string bool bool
  | ModuleTo string string dtype
  | ModuleEval string
  | NewLoRANetwork int rat int string dtype
  | NewAdamW rat
  | NewMSELoss
  | GetTextEmbeddings "string list" nat bool
  | Del string
  | EmptyCache
  | Print string
  | CheckRequiresGrad
  | CheckTrainingMode
  | SetTimesteps nat "string option"
  | ZeroGrad
  | Randint int int int
  | GetInitialLatents nat nat nat
  | EnterScope
  | ExitScope
  | Diffusion adapter_state bool 't 't int int int
  | PredictNoise adapter_state bool 't 't 't int
  | Criteria 't 't
  | SetDescription 't
  | Backward 't
  | OptimizerStep
  | Mkdir path bool bool
  | SaveWeights path 'p dtype

text \<open>
  The mutable state of a run: the adapter's activation state and parameter set, the
  optimizer, the step count the scheduler was last configured with, torch's gradient
  mode, and the local names of \<^verbatim>\<open>train\<close> that are currently bound.
\<close>

record ('p, 'o) state =
  adapter :: adapter_state
  lora :: 'p
  optim :: 'o
  sched_steps :: "nat option"
  grad_enabled :: bool
  bound :: "string set"

text \<open>What \<^verbatim>\<open>model_util.load_models\<close> was asked for and the dtype the modules were cast
  to: the collaborators below are the behaviours of the objects so obtained.\<close>

record model_ctx =
  ctx_model :: string
  ctx_scheduler :: string
  ctx_v2 :: bool
  ctx_v_pred :: bool
  ctx_dtype :: dtype

text \<open>
  The collaborators. \<open>diffusion\<close> and \<open>predict_noise\<close> may raise (they run the denoiser
  on the device); their result depends on the adapter state, the gradient mode, the
  adapter parameters and the scheduler configuration at the call. \<open>rand_raw i\<close> is the
  raw generator output behind the \<open>i\<close>-th iteration's \<^verbatim>\<open>torch.randint\<close>,
  \<open>get_initial_latents\<close> takes the iteration for the same reason. A tensor carries its
  autograd history, so \<open>backward\<close> takes the loss tensor and returns the parameter set
  with its gradients filled in.
\<close>

record ('t, 'p, 'o) collaborators =
  initial_adapter :: adapter_state
  lora_network :: "model_ctx \<Rightarrow> int \<Rightarrow> rat \<Rightarrow> int \<Rightarrow> 'p"
  adamw :: "'p \<Rightarrow> rat \<Rightarrow> 'o"
  get_text_embeddings :: "model_ctx \<Rightarrow> string list \<Rightarrow> nat \<Rightarrow> 't"
  rand_raw :: "nat \<Rightarrow> nat"
  get_initial_latents :: "model_ctx \<Rightarrow> nat \<Rightarrow> nat option \<Rightarrow> nat \<Rightarrow> nat \<Rightarrow> nat \<Rightarrow> 't"
  tensor_to :: "string \<Rightarrow> dtype \<Rightarrow> 't \<Rightarrow> 't"
  diffusion :: "model_ctx \<Rightarrow> adapter_state \<Rightarrow> bool \<Rightarrow> 'p \<Rightarrow> nat option
                  \<Rightarrow> 't \<Rightarrow> 't \<Rightarrow> int \<Rightarrow> int \<Rightarrow> int \<Rightarrow> error + 't"
  timesteps :: "model_ctx \<Rightarrow> nat option \<Rightarrow> 't list"
  predict_noise :: "model_ctx \<Rightarrow> adapter_state \<Rightarrow> bool \<Rightarrow> 'p \<Rightarrow> nat option
                  \<Rightarrow> 't \<Rightarrow> 't \<Rightarrow> 't \<Rightarrow> int \<Rightarrow> error + 't"
  set_requires_grad :: "bool \<Rightarrow> 't \<Rightarrow> 't"
  tsub :: "'t \<Rightarrow> 't \<Rightarrow> 't"
  tscale :: "rat \<Rightarrow> 't \<Rightarrow> 't"
  mse_loss :: "'t \<Rightarrow> 't \<Rightarrow> 't"
  zero_grad :: "'o \<Rightarrow> 'p \<Rightarrow> 'p"
  backward :: "'p \<Rightarrow> 't \<Rightarrow> 'p"
  optimizer_step :: "'o \<Rightarrow> 'p \<Rightarrow> 'o \<times> 'p"

subsection \<open>Sequencing\<close>

text \<open>A statement maps the state to the events it emitted, its result (\<open>Inl\<close> an
  exception) and the new state. An exception ends the enclosing sequence.\<close>

type_synonym ('a, 't, 'p, 'o) prog =
  "('p, 'o) state \<Rightarrow> (error + 'a) \<times> ('p, 'o) state \<times> ('t, 'p) event list"

definition ret :: "'a \<Rightarrow> ('a, 't, 'p, 'o) prog" where
  "ret a = (\<lambda>s. (Inr a, s, []))"

definition lift :: "error + 'a \<Rightarrow> ('a, 't, 'p, 'o) prog" where
  "lift r = (\<lambda>s. (r, s, []))"

definition seq :: "('a, 't, 'p, 'o) prog \<Rightarrow> ('a \<Rightarrow> ('b, 't, 'p, 'o) prog) \<Rightarrow> ('b, 't, 'p, 'o) prog" where
  "seq m f =
     (\<lambda>s. case m s of
         (Inl e, s1, ev1) \<Rightarrow> (Inl e, s1, ev1)
       | (Inr a, s1, ev1) \<Rightarrow> (case f a s1 of (r, s2, ev2) \<Rightarrow> (r, s2, ev1 @ ev2)))"

fun run_all :: "(unit, 't, 'p, 'o) prog list \<Rightarrow> (unit, 't, 'p, 'o) prog" where
  "run_all [] = ret ()"
| "run_all (m # ms) = seq m (\<lambda>_. run_all ms)"

definition emit :: "('t, 'p) event \<Rightarrow> (unit, 't, 'p, 'o) prog" where
  "emit ev = (\<lambda>s. (Inr (), s, [ev]))"

definition when_do :: "bool \<Rightarrow> (unit, 't, 'p, 'o) prog \<Rightarrow> (unit, 't, 'p, 'o) prog" where
  "when_do b m = (if b then m else ret ())"

text \<open>Assignment binds a local name; \<^verbatim>\<open>del\<close> of a name that is not bound raises
  UnboundLocalError, otherwise it unbinds the name.\<close>

definition assign :: "string \<Rightarrow> (unit, 't, 'p, 'o) prog" where
  "assign x = (\<lambda>s. (Inr (), s\<lparr>bound := insert x (bound s)\<rparr>, []))"

definition py_del :: "string \<Rightarrow> (unit, 't, 'p, 'o) prog" where
  "py_del x =
     (\<lambda>s. if x \<in> bound s then (Inr (), s\<lparr>bound := bound s - {x}\<rparr>, [Del x])
          else (Inl (UnboundLocalError x), s, []))"

text \<open>A \<^verbatim>\<open>for\<close> loop over a list of indices binds the loop variable and runs the body;
  an exception in the body leaves the loop.\<close>

fun for_each :: "string \<Rightarrow> (nat \<Rightarrow> ('a, 't, 'p, 'o) prog) \<Rightarrow> nat list \<Rightarrow> (unit, 't, 'p, 'o) prog" where
  "for_each x body [] = ret ()"
| "for_each x body (i # is) =
     seq (assign x) (\<lambda>_. seq (body i) (\<lambda>_. for_each x body is))"

text \<open>\<^verbatim>\<open>range(n)\<close>: empty for \<open>n \<le> 0\<close>.\<close>

definition py_range :: "int \<Rightarrow> nat list" where
  "py_range n = [0..<nat n]"

text \<open>\<^verbatim>\<open>with torch.no_grad():\<close> switches gradient tracking off for the body and restores
  the previous mode on every exit.\<close>

definition with_no_grad :: "('a, 't, 'p, 'o) prog \<Rightarrow> ('a, 't, 'p, 'o) prog" where
  "with_no_grad body =
     (\<lambda>s. case body (s\<lparr>grad_enabled := False\<rparr>) of
         (r, s1, ev) \<Rightarrow> (r, s1\<lparr>grad_enabled := grad_enabled s\<rparr>, ev))"

subsection \<open>Adapter activation protocol\<close>

text \<open>Modelled from the spec: \<^verbatim>\<open>LoRANetwork.__enter__\<close> and \<^verbatim>\<open>LoRANetwork.__exit__\<close>
  live in \<^verbatim>\<open>lora.py\<close>, which is not among the sources. Section 4.3 of the specification:
  two states, DISABLED and ENABLED; entering the scope begins the enabled state.\<close>

definition enter_enabled_scope :: "('p, 'o) state \<Rightarrow> ('p, 'o) state" where
  "enter_enabled_scope s = s\<lparr>adapter := ENABLED\<rparr>"

text \<open>Modelled from the spec: \<^verbatim>\<open>LoRANetwork.__exit__\<close> of \<^verbatim>\<open>lora.py\<close>, which is not
  among the sources. Section 4.3: leaving the scope returns the adapter to DISABLED;
  the exception, if any, is not swallowed.\<close>

definition exit_enabled_scope :: "('p, 'o) state \<Rightarrow> ('p, 'o) state" where
  "exit_enabled_scope s = s\<lparr>adapter := DISABLED\<rparr>"

text \<open>\<^verbatim>\<open>with network:\<close> is Python's \<^verbatim>\<open>with\<close> statement: \<^verbatim>\<open>__enter__\<close>, the body,
  and \<^verbatim>\<open>__exit__\<close> on every way out of the body, after which an exception of the body
  propagates.\<close>

definition with_network :: "('a, 't, 'p, 'o) prog \<Rightarrow> ('a, 't, 'p, 'o) prog" where
  "with_network body =
     (\<lambda>s. case body (enter_enabled_scope s) of
         (r, s1, ev) \<Rightarrow> (r, exit_enabled_scope s1, [EnterScope] @ ev @ [ExitScope]))"

subsection \<open>Collaborator calls as statements\<close>

definition set_timesteps :: "nat \<Rightarrow> string option \<Rightarrow> (unit, 't, 'p, 'o) prog" where
  "set_timesteps n dev = (\<lambda>s. (Inr (), s\<lparr>sched_steps := Some n\<rparr>, [SetTimesteps n dev]))"

definition optimizer_zero_grad :: "('t, 'p, 'o) collaborators \<Rightarrow> (unit, 't, 'p, 'o) prog" where
  "optimizer_zero_grad E =
     (\<lambda>s. (Inr (), s\<lparr>lora := zero_grad E (optim s) (lora s)\<rparr>, [ZeroGrad]))"

definition call_randint :: "int \<Rightarrow> int \<Rightarrow> nat \<Rightarrow> (int, 't, 'p, 'o) prog" where
  "call_randint low high raw =
     (\<lambda>s. (Inr (torch_randint low high raw), s, [Randint low high (torch_randint low high raw)]))"

definition call_initial_latents ::
  "('t, 'p, 'o) collaborators \<Rightarrow> model_ctx \<Rightarrow> nat \<Rightarrow> nat \<Rightarrow> nat \<Rightarrow> nat \<Rightarrow> ('t, 't, 'p, 'o) prog" where
  "call_initial_latents E ctx i n_imgs img_size n_prompts =
     (\<lambda>s. (Inr (get_initial_latents E ctx i (sched_steps s) n_imgs img_size n_prompts), s,
           [GetInitialLatents n_imgs img_size n_prompts]))"

definition call_diffusion ::
  "('t, 'p, 'o) collaborators \<Rightarrow> model_ctx \<Rightarrow> 't \<Rightarrow> 't \<Rightarrow> int \<Rightarrow> int \<Rightarrow> int \<Rightarrow> ('t, 't, 'p, 'o) prog" where
  "call_diffusion E ctx latents emb start_timesteps total_timesteps guidance_scale =
     (\<lambda>s. (diffusion E ctx (adapter s) (grad_enabled s) (lora s) (sched_steps s)
              latents emb start_timesteps total_timesteps guidance_scale,
           s,
           [Diffusion (adapter s) (grad_enabled s) latents emb
              start_timesteps total_timesteps guidance_scale]))"

definition call_predict_noise ::
  "('t, 'p, 'o) collaborators \<Rightarrow> model_ctx \<Rightarrow> 't \<Rightarrow> 't \<Rightarrow> 't \<Rightarrow> int \<Rightarrow> ('t, 't, 'p, 'o) prog" where
  "call_predict_noise E ctx timestep latents emb guidance_scale =
     (\<lambda>s. (predict_noise E ctx (adapter s) (grad_enabled s) (lora s) (sched_steps s)
              timestep latents emb guidance_scale,
           s,
           [PredictNoise (adapter s) (grad_enabled s) timestep latents emb guidance_scale]))"

definition scheduler_timestep ::
  "('t, 'p, 'o) collaborators \<Rightarrow> model_ctx \<Rightarrow> int \<Rightarrow> ('t, 't, 'p, 'o) prog" where
  "scheduler_timestep E ctx idx = (\<lambda>s. (py_index (timesteps E ctx (sched_steps s)) idx, s, []))"

definition call_text_embeddings ::
  "('t, 'p, 'o) collaborators \<Rightarrow> model_ctx \<Rightarrow> string list \<Rightarrow> nat \<Rightarrow> ('t, 't, 'p, 'o) prog" where
  "call_text_embeddings E ctx prompts n_imgs =
     (\<lambda>s. (Inr (get_text_embeddings E ctx prompts n_imgs), s,
           [GetTextEmbeddings prompts n_imgs (grad_enabled s)]))"

definition loss_backward :: "('t, 'p, 'o) collaborators \<Rightarrow> 't \<Rightarrow> (unit, 't, 'p, 'o) prog" where
  "loss_backward E l = (\<lambda>s. (Inr (), s\<lparr>lora := backward E (lora s) l\<rparr>, [Backward l]))"

definition call_optimizer_step :: "('t, 'p, 'o) collaborators \<Rightarrow> (unit, 't, 'p, 'o) prog" where
  "call_optimizer_step E =
     (\<lambda>s. case optimizer_step E (optim s) (lora s) of
         (opt, par) \<Rightarrow> (Inr (), s\<lparr>lora := par, optim := opt\<rparr>, [OptimizerStep]))"

definition save_weights :: "path \<Rightarrow> dtype \<Rightarrow> (unit, 't, 'p, 'o) prog" where
  "save_weights file dt = (\<lambda>s. (Inr (), s, [SaveWeights file (lora s) dt]))"

subsection \<open>The loop body\<close>

text \<open>Lines 122-169, the body of \<^verbatim>\<open>with torch.no_grad():\<close>.\<close>

definition no_grad_block ::
  "('t, 'p, 'o) collaborators \<Rightarrow> model_ctx \<Rightarrow> 't \<Rightarrow> 't \<Rightarrow> nat
     \<Rightarrow> (int \<times> 't \<times> 't \<times> 't \<times> 't \<times> 't, 't, 'p, 'o) prog" where
  "no_grad_block E ctx positive_text_embeddings neutral_text_embeddings i =
     seq (set_timesteps (nat DDIM_STEPS) (Some DEVICE_CUDA)) (\<lambda>_.
     seq (optimizer_zero_grad E) (\<lambda>_.
     seq (call_randint 1 (DDIM_STEPS - 1) (rand_raw E i)) (\<lambda>timesteps_to.
     seq (assign ''timesteps_to'') (\<lambda>_.
     seq (call_initial_latents E ctx i 1 512 1) (\<lambda>l.
     let latents = tensor_to E DEVICE_CUDA (ctx_dtype ctx) l in
     seq (assign ''latents'') (\<lambda>_.
     seq (with_network
            (seq (call_diffusion E ctx latents positive_text_embeddings 0 timesteps_to 3) (\<lambda>d.
             seq (assign ''denoised_latents'') (\<lambda>_. ret d)))) (\<lambda>denoised_latents.
     seq (set_timesteps 1000 None) (\<lambda>_.
     seq (scheduler_timestep E ctx (fine_timestep_index timesteps_to)) (\<lambda>current_timestep.
     seq (assign ''current_timestep'') (\<lambda>_.
     seq (call_predict_noise E ctx current_timestep denoised_latents
            positive_text_embeddings 1) (\<lambda>p.
     let positive_latents = tensor_to E ''cpu'' Float32 p in
     seq (assign ''positive_latents'') (\<lambda>_.
     seq (emit (Print ''positive_latents'')) (\<lambda>_.
     seq (call_predict_noise E ctx current_timestep denoised_latents
            neutral_text_embeddings 1) (\<lambda>n.
     let neutral_latents = tensor_to E ''cpu'' Float32 n in
     seq (assign ''neutral_latents'') (\<lambda>_.
     seq (emit (Print ''neutral_latents'')) (\<lambda>_.
     ret (timesteps_to, latents, denoised_latents, current_timestep,
          positive_latents, neutral_latents)))))))))))))))))"

text \<open>Lines 171-180, the second \<^verbatim>\<open>with network:\<close>.\<close>

definition enabled_prediction ::
  "('t, 'p, 'o) collaborators \<Rightarrow> model_ctx \<Rightarrow> 't \<Rightarrow> 't \<Rightarrow> 't \<Rightarrow> ('t, 't, 'p, 'o) prog" where
  "enabled_prediction E ctx current_timestep denoised_latents positive_text_embeddings =
     with_network
       (seq (call_predict_noise E ctx current_timestep denoised_latents
               positive_text_embeddings 1) (\<lambda>n.
        let negative_latents = tensor_to E ''cpu'' Float32 n in
        seq (assign ''negative_latents'') (\<lambda>_.
        seq (emit (Print ''negative_latents'')) (\<lambda>_.
        ret negative_latents))))"

text \<open>Lines 186-190: the second operand of \<^verbatim>\<open>criteria\<close>.\<close>

definition guidance_target :: "('t, 'p, 'o) collaborators \<Rightarrow> rat \<Rightarrow> 't \<Rightarrow> 't \<Rightarrow> 't" where
  "guidance_target E g positive neutral =
     tsub E neutral (tscale E g (tsub E positive neutral))"

text \<open>The local variables an iteration assigns, as they stand at its end.\<close>

record 't loop_locals =
  timesteps_to :: int
  latents :: 't
  denoised_latents :: 't
  current_timestep :: 't
  positive_latents :: 't
  neutral_latents :: 't
  negative_latents :: 't
  loss :: 't

text \<open>Lines 118-197, one pass through the body of \<^verbatim>\<open>for i in pbar:\<close>.\<close>

definition iteration ::
  "('t, 'p, 'o) collaborators \<Rightarrow> train_args \<Rightarrow> model_ctx \<Rightarrow> 't \<Rightarrow> 't \<Rightarrow> nat
     \<Rightarrow> ('t loop_locals, 't, 'p, 'o) prog" where
  "iteration E A ctx positive_text_embeddings neutral_text_embeddings i =
     seq (when_do (enable_wandb A) (emit (WandbLogIteration i))) (\<lambda>_.
     seq (with_no_grad
            (no_grad_block E ctx positive_text_embeddings neutral_text_embeddings i))
         (\<lambda>(t_to, lat, denoised, timestep, pos, neu).
     seq (enabled_prediction E ctx timestep denoised positive_text_embeddings) (\<lambda>neg.
     let pos_ng = set_requires_grad E False pos;
         neu_ng = set_requires_grad E False neu;
         target = guidance_target E (negative_guidance A) pos_ng neu_ng;
         l = mse_loss E neg target in
     seq (emit (Criteria neg target)) (\<lambda>_.
     seq (assign ''loss'') (\<lambda>_.
     seq (emit (SetDescription l)) (\<lambda>_.
     seq (when_do (enable_wandb A) (emit (WandbLogLoss l))) (\<lambda>_.
     seq (loss_backward E l) (\<lambda>_.
     seq (call_optimizer_step E) (\<lambda>_.
     ret \<lparr> timesteps_to = t_to, latents = lat,
           denoised_latents = denoised, current_timestep = timestep,
           positive_latents = pos_ng, neutral_latents = neu_ng,
           negative_latents = neg, loss = l \<rparr>)))))))))"

subsection \<open>The run\<close>

definition ctx_of :: "train_args \<Rightarrow> model_ctx" where
  "ctx_of A =
     \<lparr> ctx_model = pretrained_model A, ctx_scheduler = scheduler_name A,
       ctx_v2 = v2 A, ctx_v_pred = v_pred A, ctx_dtype = weight_dtype_of (precision A) \<rparr>"

definition param_names :: "string set" where
  "param_names =
     {''prompt'', ''pretrained_model'', ''modules'', ''iterations'', ''neutral_prompt'',
      ''rank'', ''alpha'', ''negative_guidance'', ''lr'', ''save_path'', ''v2'', ''v_pred'',
      ''precision'', ''scheduler_name'', ''enable_wandb''}"

text \<open>The state at entry. The adapter and the optimizer are the objects that lines 88-92
  construct (with \<^verbatim>\<open>multiplier=1.0, alpha=1\<close>, whatever \<^verbatim>\<open>alpha\<close> was passed); the
  names \<^verbatim>\<open>network\<close> and \<^verbatim>\<open>optimizer\<close> become bound where the source assigns them.\<close>

definition init_state :: "('t, 'p, 'o) collaborators \<Rightarrow> train_args \<Rightarrow> ('p, 'o) state" where
  "init_state E A =
     (let network = lora_network E (ctx_of A) (rank A) 1 1
      in \<lparr> adapter = initial_adapter E, lora = network, optim = adamw E network (lr A),
           sched_steps = None, grad_enabled = True, bound = param_names \<rparr>)"

text \<open>Lines 50-95.\<close>

definition initialize :: "train_args \<Rightarrow> (unit, 't, 'p, 'o) prog" where
  "initialize A =
     (let weight_dtype = weight_dtype_of (precision A) in
      run_all
        [ when_do (enable_wandb A)
            (run_all [emit (WandbInit ''LECO''), emit (WandbConfig (wandb_config A))]),
          assign ''weight_dtype'',
          emit (LoadModels (pretrained_model A) (scheduler_name A) (v2 A) (v_pred A)),
          assign ''tokenizer'', assign ''text_encoder'', assign ''unet'', assign ''scheduler'',
          emit (ModuleTo ''text_encoder'' DEVICE_CUDA weight_dtype),
          emit (ModuleEval ''text_encoder''),
          emit (ModuleTo ''unet'' DEVICE_CUDA weight_dtype),
          emit (ModuleEval ''unet''),
          emit (NewLoRANetwork (rank A) 1 1 DEVICE_CUDA weight_dtype),
          assign ''network'',
          emit (NewAdamW (lr A)),
          assign ''optimizer'',
          emit NewMSELoss,
          assign ''criteria'',
          assign ''pbar'' ])"

text \<open>Lines 97-103.\<close>

definition precompute_embeddings ::
  "('t, 'p, 'o) collaborators \<Rightarrow> train_args \<Rightarrow> ('t \<times> 't, 't, 'p, 'o) prog" where
  "precompute_embeddings E A =
     with_no_grad
       (seq (call_text_embeddings E (ctx_of A) [''''] 1) (\<lambda>neutral_text_embeddings.
        seq (assign ''neutral_text_embeddings'') (\<lambda>_.
        seq (call_text_embeddings E (ctx_of A) [prompt A] 1) (\<lambda>positive_text_embeddings.
        seq (assign ''positive_text_embeddings'') (\<lambda>_.
        ret (neutral_text_embeddings, positive_text_embeddings))))))"

text \<open>Lines 105-115.\<close>

definition release_encoder :: "(unit, 't, 'p, 'o) prog" where
  "release_encoder =
     run_all
       [ py_del ''tokenizer'', py_del ''text_encoder'', emit EmptyCache,
         emit (Print ''grads: network''), emit CheckRequiresGrad,
         emit (Print ''training mode: network''), emit CheckTrainingMode ]"

text \<open>Lines 199-207.\<close>

definition save :: "train_args \<Rightarrow> (unit, 't, 'p, 'o) prog" where
  "save A =
     run_all
       [ emit (Print ''Saving...''),
         emit (Mkdir (Path (save_path A)) True True),
         assign ''concept_name'',
         save_weights (weights_file A) (weight_dtype_of (precision A)) ]"

text \<open>Lines 209-223. The \<^verbatim>\<open>del\<close> statement unbinds its targets from left to right.\<close>

definition cleanup_names :: "string list" where
  "cleanup_names =
     [''unet'', ''scheduler'', ''loss'', ''optimizer'', ''network'', ''negative_latents'',
      ''neutral_latents'', ''positive_latents'', ''latents'']"

definition cleanup :: "(unit, 't, 'p, 'o) prog" where
  "cleanup = run_all (map py_del cleanup_names @ [emit EmptyCache, emit (Print ''Done.'')])"

definition training_loop ::
  "('t, 'p, 'o) collaborators \<Rightarrow> train_args \<Rightarrow> 't \<Rightarrow> 't \<Rightarrow> (unit, 't, 'p, 'o) prog" where
  "training_loop E A positive_text_embeddings neutral_text_embeddings =
     for_each ''i''
       (iteration E A (ctx_of A) positive_text_embeddings neutral_text_embeddings)
       (py_range (iterations A))"

definition train_body :: "('t, 'p, 'o) collaborators \<Rightarrow> train_args \<Rightarrow> (unit, 't, 'p, 'o) prog" where
  "train_body E A =
     seq (initialize A) (\<lambda>_.
     seq (precompute_embeddings E A) (\<lambda>(neutral_text_embeddings, positive_text_embeddings).
     seq release_encoder (\<lambda>_.
     seq (training_loop E A positive_text_embeddings neutral_text_embeddings) (\<lambda>_.
     seq (save A) (\<lambda>_.
     cleanup)))))"

definition train ::
  "('t, 'p, 'o) collaborators \<Rightarrow> train_args
     \<Rightarrow> (error + unit) \<times> ('p, 'o) state \<times> ('t, 'p) event list" where
  "train E A = train_body E A (init_state E A)"

definition outcome :: "(error + 'a) \<times> 's \<times> 'e list \<Rightarrow> error + 'a" where
  "outcome r = fst r"

definition final_state :: "(error + 'a) \<times> 's \<times> 'e list \<Rightarrow> 's" where
  "final_state r = fst (snd r)"

definition events :: "(error + 'a) \<times> 's \<times> 'e list \<Rightarrow> 'e list" where
  "events r = snd (snd r)"

subsection \<open>Views of a run\<close>

text \<open>The sampler calls of an event list: which call, the adapter state and gradient mode
  it ran under, and the conditioning embedding it was given.\<close>

definition sampler_call :: "('t, 'p) event \<Rightarrow> (string \<times> adapter_state \<times> bool \<times> 't) list" where
  "sampler_call ev =
     (case ev of
        Diffusion a g lat emb st tot gs \<Rightarrow> [(''diffusion'', a, g, emb)]
      | PredictNoise a g ts lat emb gs \<Rightarrow> [(''predict_noise'', a, g, emb)]
      | _ \<Rightarrow> [])"

definition sampler_calls :: "('t, 'p) event list \<Rightarrow> (string \<times> adapter_state \<times> bool \<times> 't) list" where
  "sampler_calls evs = concat (map sampler_call evs)"

text \<open>The four sampler calls of one iteration, in order.\<close>

definition iteration_calls :: "'t \<Rightarrow> 't \<Rightarrow> (string \<times> adapter_state \<times> bool \<times> 't) list" where
  "iteration_calls pos neu =
     [ (''diffusion'', ENABLED, False, pos),
       (''predict_noise'', DISABLED, False, pos),
       (''predict_noise'', DISABLED, False, neu),
       (''predict_noise'', ENABLED, True, pos) ]"

definition embedding_call :: "('t, 'p) event \<Rightarrow> (string list \<times> nat \<times> bool) list" where
  "embedding_call ev = (case ev of GetTextEmbeddings ps n g \<Rightarrow> [(ps, n, g)] | _ \<Rightarrow> [])"

definition embedding_calls :: "('t, 'p) event list \<Rightarrow> (string list \<times> nat \<times> bool) list" where
  "embedding_calls evs = concat (map embedding_call evs)"

definition file_effect :: "('t, 'p) event \<Rightarrow> ('t, 'p) event list" where
  "file_effect ev = (case ev of Mkdir p a b \<Rightarrow> [ev] | SaveWeights p w d \<Rightarrow> [ev] | _ \<Rightarrow> [])"

definition file_effects :: "('t, 'p) event list \<Rightarrow> ('t, 'p) event list" where
  "file_effects evs = concat (map file_effect evs)"

definition randint_draw :: "('t, 'p) event \<Rightarrow> (int \<times> int \<times> int) list" where
  "randint_draw ev = (case ev of Randint lo hi v \<Rightarrow> [(lo, hi, v)] | _ \<Rightarrow> [])"

definition randint_draws :: "('t, 'p) event list \<Rightarrow> (int \<times> int \<times> int) list" where
  "randint_draws evs = concat (map randint_draw evs)"

text \<open>An event with the \<^verbatim>\<open>neutral_prompt\<close> entry of the tracker configuration removed.\<close>

definition redact_neutral :: "('t, 'p) event \<Rightarrow> ('t, 'p) event" where
  "redact_neutral ev =
     (case ev of
        WandbConfig kvs \<Rightarrow> WandbConfig (filter (\<lambda>kv. fst kv \<noteq> ''neutral_prompt'') kvs)
      | _ \<Rightarrow> ev)"

text \<open>The two embeddings that lines 98-103 compute.\<close>

definition neutral_embedding :: "('t, 'p, 'o) collaborators \<Rightarrow> train_args \<Rightarrow> 't" where
  "neutral_embedding E A = get_text_embeddings E (ctx_of A) [''''] 1"

definition positive_embedding :: "('t, 'p, 'o) collaborators \<Rightarrow> train_args \<Rightarrow> 't" where
  "positive_embedding E A = get_text_embeddings E (ctx_of A) [prompt A] 1"

text \<open>The run in three parts: everything before the loop, the loop, everything after.\<close>

definition prologue :: "('t, 'p, 'o) collaborators \<Rightarrow> train_args \<Rightarrow> ('t \<times> 't, 't, 'p, 'o) prog" where
  "prologue E A =
     seq (initialize A) (\<lambda>_.
     seq (precompute_embeddings E A) (\<lambda>embs.
     seq release_encoder (\<lambda>_. ret embs)))"

definition epilogue :: "train_args \<Rightarrow> (unit, 't, 'p, 'o) prog" where
  "epilogue A = seq (save A) (\<lambda>_. cleanup)"

definition loop_entry_state :: "('t, 'p, 'o) collaborators \<Rightarrow> train_args \<Rightarrow> ('p, 'o) state" where
  "loop_entry_state E A = fst (snd (prologue E A (init_state E A)))"

definition prologue_events :: "('t, 'p, 'o) collaborators \<Rightarrow> train_args \<Rightarrow> ('t, 'p) event list" where
  "prologue_events E A = snd (snd (prologue E A (init_state E A)))"

subsection \<open>An example instance\<close>

text \<open>Collaborators over integers, small enough to run: a tensor is an integer, the
  adapter parameter set counts optimizer steps, and the enabled adapter adds its
  parameter to every prediction. \<open>failing_collaborators\<close> is the same instance with a
  denoiser that raises whenever the adapter is enabled.\<close>

definition example_collaborators :: "(int, int, nat) collaborators" where
  "example_collaborators =
     \<lparr> initial_adapter = ENABLED,
       lora_network = (\<lambda>ctx r m a. 0),
       adamw = (\<lambda>p l. 0),
       get_text_embeddings = (\<lambda>ctx ps n. int (length (concat ps))),
       rand_raw = (\<lambda>i. 7 * i + 3),
       get_initial_latents = (\<lambda>ctx i st a b c. int i),
       tensor_to = (\<lambda>dev dt t. t),
       diffusion = (\<lambda>ctx a g p st lat emb s t gs.
          Inr (lat + emb + t + (if a = ENABLED then p else 0))),
       timesteps = (\<lambda>ctx st. case st of None \<Rightarrow> [] | Some n \<Rightarrow> map (\<lambda>k. 999 - int k) [0..<n]),
       predict_noise = (\<lambda>ctx a g p st ts lat emb gs.
          Inr (ts + lat + emb + (if a = ENABLED then p else 0))),
       set_requires_grad = (\<lambda>b t. t),
       tsub = (\<lambda>x y. x - y),
       tscale = (\<lambda>q t. \<lfloor>q * of_int t\<rfloor>),
       mse_loss = (\<lambda>x y. (x - y) * (x - y)),
       zero_grad = (\<lambda>opt p. p),
       backward = (\<lambda>p l. p),
       optimizer_step = (\<lambda>opt p. (Suc opt, p + 1)) \<rparr>"

definition failing_collaborators :: "(int, int, nat) collaborators" where
  "failing_collaborators =
     example_collaborators
       \<lparr> predict_noise := (\<lambda>ctx a g p st ts lat emb gs.
            if a = ENABLED then Inl (RuntimeError ''CUDA out of memory'')
            else Inr (ts + lat + emb)) \<rparr>"

definition example_args :: "int \<Rightarrow> train_args" where
  "example_args n = default_args ''van gogh style'' ''model'' [] n"

section \<open>Properties\<close>

subsection \<open>Unfolding and decomposition\<close>

lemmas prog_defs = seq_def ret_def lift_def emit_def when_do_def assign_def py_del_def
  with_no_grad_def with_network_def enter_enabled_scope_def exit_enabled_scope_def
  set_timesteps_def optimizer_zero_grad_def call_randint_def call_initial_latents_def
  call_diffusion_def call_predict_noise_def scheduler_timestep_def call_text_embeddings_def
  loss_backward_def call_optimizer_step_def save_weights_def

lemma outcome_simp [simp]: "outcome (r, s, evs) = r"
  by (simp add: outcome_def)

lemma final_state_simp [simp]: "final_state (r, s, evs) = s"
  by (simp add: final_state_def)

lemma events_simp [simp]: "events (r, s, evs) = evs"
  by (simp add: events_def)

lemma sampler_calls_simps [simp]:
  "sampler_calls [] = []"
  "sampler_calls (xs @ ys) = sampler_calls xs @ sampler_calls ys"
  "sampler_calls (ev # evs) = sampler_call ev @ sampler_calls evs"
  by (simp_all add: sampler_calls_def)

lemma embedding_calls_simps [simp]:
  "embedding_calls [] = []"
  "embedding_calls (xs @ ys) = embedding_calls xs @ embedding_calls ys"
  "embedding_calls (ev # evs) = embedding_call ev @ embedding_calls evs"
  by (simp_all add: embedding_calls_def)

lemma file_effects_simps [simp]:
  "file_effects [] = []"
  "file_effects (xs @ ys) = file_effects xs @ file_effects ys"
  "file_effects (ev # evs) = file_effect ev @ file_effects evs"
  by (simp_all add: file_effects_def)

lemma randint_draws_simps [simp]:
  "randint_draws [] = []"
  "randint_draws (xs @ ys) = randint_draws xs @ randint_draws ys"
  "randint_draws (ev # evs) = randint_draw ev @ randint_draws evs"
  by (simp_all add: randint_draws_def)

lemma train_body_split:
  "train_body E A =
     seq (prologue E A) (\<lambda>(neu, pos). seq (training_loop E A pos neu) (\<lambda>_. epilogue A))"
  by (auto simp: train_body_def prologue_def epilogue_def seq_def ret_def fun_eq_iff
      split: prod.splits sum.splits)

lemma prologue_result:
  "prologue E A (init_state E A) =
     (Inr (neutral_embedding E A, positive_embedding E A),
      \<lparr> adapter = initial_adapter E,
        lora = lora_network E (ctx_of A) (rank A) 1 1,
        optim = adamw E (lora_network E (ctx_of A) (rank A) 1 1) (lr A),
        sched_steps = None, grad_enabled = True,
        bound =
          {''positive_text_embeddings'', ''neutral_text_embeddings'', ''pbar'', ''criteria'',
           ''optimizer'', ''network'', ''scheduler'', ''unet'', ''text_encoder'', ''tokenizer'',
           ''weight_dtype'', ''prompt'', ''pretrained_model'', ''modules'', ''iterations'',
           ''neutral_prompt'', ''rank'', ''alpha'', ''negative_guidance'', ''lr'', ''save_path'',
           ''v2'', ''v_pred'', ''precision'', ''scheduler_name'', ''enable_wandb''}
          - {''tokenizer''} - {''text_encoder''} \<rparr>,
      (if enable_wandb A then [WandbInit ''LECO'', WandbConfig (wandb_config A)] else []) @
      [ LoadModels (pretrained_model A) (scheduler_name A) (v2 A) (v_pred A),
        ModuleTo ''text_encoder'' DEVICE_CUDA (weight_dtype_of (precision A)),
        ModuleEval ''text_encoder'',
        ModuleTo ''unet'' DEVICE_CUDA (weight_dtype_of (precision A)),
        ModuleEval ''unet'',
        NewLoRANetwork (rank A) 1 1 DEVICE_CUDA (weight_dtype_of (precision A)),
        NewAdamW (lr A), NewMSELoss,
        GetTextEmbeddings [''''] 1 False, GetTextEmbeddings [prompt A] 1 False,
        Del ''tokenizer'', Del ''text_encoder'', EmptyCache,
        Print ''grads: network'', CheckRequiresGrad,
        Print ''training mode: network'', CheckTrainingMode ])"
  by (simp add: prologue_def initialize_def precompute_embeddings_def release_encoder_def
      init_state_def prog_defs Let_def param_names_def neutral_embedding_def
      positive_embedding_def)

lemma train_split:
  "train E A =
     (case training_loop E A (positive_embedding E A) (neutral_embedding E A)
             (loop_entry_state E A) of
        (Inl e, s1, ev1) \<Rightarrow> (Inl e, s1, prologue_events E A @ ev1)
      | (Inr u, s1, ev1) \<Rightarrow>
          (case epilogue A s1 of (r, s2, ev2) \<Rightarrow> (r, s2, prologue_events E A @ ev1 @ ev2)))"
proof -
  have p: "prologue E A (init_state E A) =
      (Inr (neutral_embedding E A, positive_embedding E A),
       loop_entry_state E A, prologue_events E A)"
    by (simp add: loop_entry_state_def prologue_events_def prologue_result)
  show ?thesis
    unfolding train_def train_body_split
    by (simp add: seq_def p split: prod.splits sum.splits)
qed

lemma for_each_Cons_eq:
  "for_each x body (i # is) s =
     (case body i (s\<lparr>bound := insert x (bound s)\<rparr>) of
        (Inl e, s1, ev1) \<Rightarrow> (Inl e, s1, ev1)
      | (Inr a, s1, ev1) \<Rightarrow>
          (case for_each x body is s1 of (r, s2, ev2) \<Rightarrow> (r, s2, ev1 @ ev2)))"
  by (simp add: seq_def assign_def split: prod.splits sum.splits)

lemma for_each_invariant:
  assumes step: "\<And>i s r s' evs. I s \<Longrightarrow> body i (s\<lparr>bound := insert x (bound s)\<rparr>) = (r, s', evs)
                   \<Longrightarrow> I s' \<and> list_all P evs"
    and "I s" and "for_each x body is s = (r, s', evs)"
  shows "I s' \<and> list_all P evs"
  using assms(2,3)
proof (induction "is" arbitrary: s r s' evs)
  case Nil
  then show ?case by (simp add: ret_def)
next
  case (Cons i "is")
  obtain r1 s1 ev1 where b: "body i (s\<lparr>bound := insert x (bound s)\<rparr>) = (r1, s1, ev1)"
    by (cases "body i (s\<lparr>bound := insert x (bound s)\<rparr>)") auto
  from step[OF Cons.prems(1) b] have s1: "I s1" and e1: "list_all P ev1" by simp_all
  show ?case
  proof (cases r1)
    case (Inl e)
    with Cons.prems(2) b s1 e1 show ?thesis by (simp add: for_each_Cons_eq del: for_each.simps)
  next
    case (Inr a)
    obtain r2 s2 ev2 where l: "for_each x body is s1 = (r2, s2, ev2)"
      by (cases "for_each x body is s1") auto
    from Cons.IH[OF s1 l] have "I s2" "list_all P ev2" by simp_all
    with Cons.prems(2) b l Inr e1 show ?thesis
      by (auto simp add: for_each_Cons_eq simp del: for_each.simps)
  qed
qed

subsection \<open>The loop body\<close>

lemma iteration_facts:
  "case iteration E A ctx pos neu i s of (r, s', evs) \<Rightarrow>
      adapter s' = DISABLED \<and> grad_enabled s' = grad_enabled s
    \<and> prefix (sampler_calls evs)
         [(''diffusion'', ENABLED, False, pos), (''predict_noise'', DISABLED, False, pos),
          (''predict_noise'', DISABLED, False, neu),
          (''predict_noise'', ENABLED, grad_enabled s, pos)]
    \<and> ((\<exists>v. r = Inr v) \<longrightarrow> sampler_calls evs =
         [(''diffusion'', ENABLED, False, pos), (''predict_noise'', DISABLED, False, pos),
          (''predict_noise'', DISABLED, False, neu),
          (''predict_noise'', ENABLED, grad_enabled s, pos)])
    \<and> embedding_calls evs = [] \<and> file_effects evs = []
    \<and> randint_draws evs = [(1, DDIM_STEPS - 1, torch_randint 1 (DDIM_STEPS - 1) (rand_raw E i))]
    \<and> Print ''Saving...'' \<notin> set evs"
  by (simp add: iteration_def no_grad_block_def enabled_prediction_def prog_defs Let_def
      sampler_call_def embedding_call_def file_effect_def randint_draw_def
      split: sum.splits prod.splits)

lemma iteration_loss:
  assumes "iteration E A ctx pos neu i s = (Inr v, s', evs)"
  shows "loss v = mse_loss E (negative_latents v)
           (tsub E (neutral_latents v)
              (tscale E (negative_guidance A)
                 (tsub E (positive_latents v) (neutral_latents v))))
       \<and> (\<exists>p. predict_noise E ctx DISABLED False (zero_grad E (optim s) (lora s)) (Some 1000)
                 (current_timestep v) (denoised_latents v) pos 1 = Inr p
              \<and> positive_latents v = set_requires_grad E False (tensor_to E ''cpu'' Float32 p))
       \<and> (\<exists>n. predict_noise E ctx DISABLED False (zero_grad E (optim s) (lora s)) (Some 1000)
                 (current_timestep v) (denoised_latents v) neu 1 = Inr n
              \<and> neutral_latents v = set_requires_grad E False (tensor_to E ''cpu'' Float32 n))
       \<and> (\<exists>q. predict_noise E ctx ENABLED (grad_enabled s) (zero_grad E (optim s) (lora s))
                 (Some 1000) (current_timestep v) (denoised_latents v) pos 1 = Inr q
              \<and> negative_latents v = tensor_to E ''cpu'' Float32 q)
       \<and> Criteria (negative_latents v)
            (tsub E (neutral_latents v)
              (tscale E (negative_guidance A)
                 (tsub E (positive_latents v) (neutral_latents v)))) \<in> set evs"
  using assms
  by (auto simp add: iteration_def no_grad_block_def enabled_prediction_def prog_defs Let_def
      guidance_target_def split: sum.splits prod.splits if_splits)

subsection \<open>Binary64 rounding of the index quotient\<close>

lemma bitlen_one: "bitlen 1 = 1"
  by (simp add: bitlen_alt_def)

lemma bitlen_pos: "0 < n \<Longrightarrow> 0 < bitlen n"
  using bitlen_nonneg[of n] bitlen_eq_zero_iff[of n] by linarith

lemma round_half_even_of_int: "round_half_even (of_int z) = z"
  by (simp add: round_half_even_def)

lemma ilog2_of_int:
  assumes "0 < n"
  shows "ilog2 (of_int n) = bitlen n - 1"
proof -
  have b: "2 ^ nat (bitlen n - 1) \<le> n" using bitlen_bounds[OF assms] by simp
  have "0 < bitlen n" using assms by (rule bitlen_pos)
  then have p: "pow2 (bitlen n - 1) = of_int (2 ^ nat (bitlen n - 1))"
    by (simp add: pow2_def)
  have "pow2 (bitlen n - 1) \<le> of_int n"
    unfolding p using b by (simp only: of_int_le_iff)
  then show ?thesis
    by (simp add: ilog2_def quotient_of_int[unfolded Rat.of_int_def] bitlen_one Let_def)
qed

lemma round_binary64_of_int:
  assumes "0 < n" "n < 2 ^ 53"
  shows "round_binary64 (of_int n) = of_int n"
proof -
  define j where "j = nat (53 - bitlen n)"
  have "bitlen n \<le> 53" using assms by (simp add: bitlen_le_iff_power)
  have bpos: "0 < bitlen n" using assms(1) by (rule bitlen_pos)
  have e: "ilog2 \<bar>of_int n\<bar> - 52 = - int j"
    using assms \<open>bitlen n \<le> 53\<close> ilog2_of_int[OF assms(1)] by (simp add: j_def)
  have pe: "pow2 (- int j) = 1 / 2 ^ j"
    by (cases "j = 0") (simp_all add: pow2_def)
  have "\<bar>of_int n :: rat\<bar> / pow2 (- int j) = of_int (n * 2 ^ j)"
    using assms by (simp add: pe)
  then have m: "round_half_even (\<bar>of_int n :: rat\<bar> / pow2 (- int j)) = n * 2 ^ j"
    by (simp only: round_half_even_of_int)
  have "of_int n \<noteq> (0::rat)" using assms by simp
  then show ?thesis
    using assms unfolding round_binary64_def e Let_def m
    by (simp add: pe)
qed

lemma py_truediv_exact:
  assumes "0 < c" "c < 2 ^ 40"
  shows "py_truediv (c * 1000) DDIM_STEPS = of_int (20 * c)"
proof -
  have "(of_int (c * 1000) :: rat) / of_int DDIM_STEPS = of_int (20 * c)"
    by (simp add: DDIM_STEPS_def)
  moreover have "20 * c < 2 ^ 53" using assms by simp
  ultimately show ?thesis
    unfolding py_truediv_def using round_binary64_of_int[of "20 * c"] assms by simp
qed

lemma fine_index: 
  assumes "1 \<le> c" "c \<le> DDIM_STEPS - 2"
  shows "fine_timestep_index c = 20 * c"
proof -
  have "0 < c" "c < 2 ^ 40" using assms by (simp_all add: DDIM_STEPS_def)
  then have "py_truediv (c * 1000) DDIM_STEPS = of_int (20 * c)"
    by (rule py_truediv_exact)
  then show ?thesis
    unfolding fine_timestep_index_def py_int_def using \<open>0 < c\<close>
    by (simp only: floor_of_int of_int_0_le_iff) simp
qed

subsection \<open>Claims about the orchestrator's own arithmetic\<close>

text \<open>
  C6. Precision resolution is a total function with no failing branch: the string
  "float16" gives half precision, "bfloat16" gives bfloat16, and every other string,
  "float32" and the unrecognised "int8" among them, gives float32.
\<close>

theorem weight_dtype_resolution:
  "weight_dtype_of ''float16'' = Float16
   \<and> weight_dtype_of ''bfloat16'' = BFloat16
   \<and> weight_dtype_of ''float32'' = Float32
   \<and> weight_dtype_of ''int8'' = Float32
   \<and> (\<forall>p. p \<noteq> ''float16'' \<longrightarrow> p \<noteq> ''bfloat16'' \<longrightarrow> weight_dtype_of p = Float32)
   \<and> ctx_dtype (ctx_of A) = weight_dtype_of (precision A)"
  by (simp add: weight_dtype_of_def ctx_of_def)

theorem weight_dtype_resolution_witness:
  "''mixed'' \<noteq> ''float16'' \<and> ''mixed'' \<noteq> ''bfloat16'' \<and> weight_dtype_of ''mixed'' = Float32
   \<and> ctx_dtype (ctx_of (example_args 0)) = BFloat16"
  using weight_dtype_resolution[of "example_args 0"]
  by (simp add: example_args_def default_args_def)

text \<open>
  C4. For a coarse index \<open>c\<close> in \<open>[1, DDIM_STEPS - 2]\<close> the fine index
  \<^verbatim>\<open>int(c * 1000 / DDIM_STEPS)\<close> equals \<^verbatim>\<open>round(c * 1000 / DDIM_STEPS)\<close>, lies in
  \<open>[0, 1000)\<close>, and loses nothing to the float division or to the truncation: the
  binary64 quotient is the exact quotient \<open>20 c\<close>. Hence the lookup in a 1000-entry
  schedule does not raise.
\<close>

theorem fine_timestep_index_exact:
  assumes "1 \<le> c" and "c \<le> DDIM_STEPS - 2"
  shows "fine_timestep_index c = py_round (py_truediv (c * 1000) DDIM_STEPS)
       \<and> 0 \<le> fine_timestep_index c \<and> fine_timestep_index c < 1000
       \<and> py_truediv (c * 1000) DDIM_STEPS = of_int c * 1000 / of_int DDIM_STEPS
       \<and> of_int (fine_timestep_index c) = (of_int c * 1000 / of_int DDIM_STEPS :: rat)
       \<and> fine_timestep_index c = 20 * c
       \<and> (\<forall>xs :: 'a list. length xs = 1000 \<longrightarrow>
            py_index xs (fine_timestep_index c) = Inr (xs ! nat (20 * c)))"
proof -
  have c: "0 < c" "c < 2 ^ 40" using assms by (simp_all add: DDIM_STEPS_def)
  have q: "py_truediv (c * 1000) DDIM_STEPS = of_int (20 * c)"
    using c by (rule py_truediv_exact)
  have f: "fine_timestep_index c = 20 * c"
    using assms by (rule fine_index)
  have r: "py_round (of_int (20 * c)) = 20 * c"
    unfolding py_round_def by (rule round_half_even_of_int)
  have e: "(of_int (20 * c) :: rat) = of_int c * 1000 / of_int DDIM_STEPS"
    by (simp add: DDIM_STEPS_def)
  have b: "0 \<le> 20 * c" "20 * c < 1000"
    using assms by (simp_all add: DDIM_STEPS_def)
  have i: "py_index xs (20 * c) = Inr (xs ! nat (20 * c))" if "length xs = 1000" for xs :: "'a list"
    using b that by (simp add: py_index_def)
  show ?thesis
    unfolding f q r using b e i by simp
qed

theorem fine_timestep_index_exact_witness:
  "(1::int) \<le> 48 \<and> 48 \<le> DDIM_STEPS - 2
   \<and> fine_timestep_index 48 = 960
   \<and> py_truediv (48 * 1000) DDIM_STEPS = 960
   \<and> py_round (py_truediv (48 * 1000) DDIM_STEPS) = 960
   \<and> py_index (replicate 1000 (7::nat)) (fine_timestep_index 48) = Inr 7"
proof -
  have h: "(1::int) \<le> 48" "(48::int) \<le> DDIM_STEPS - 2"
    by (simp_all add: DDIM_STEPS_def)
  note t = fine_timestep_index_exact[OF h, where 'a = nat]
  have r: "fine_timestep_index 48 = py_round (py_truediv (48 * 1000) DDIM_STEPS)"
    by (rule t[THEN conjunct1])
  have q: "py_truediv (48 * 1000) DDIM_STEPS = of_int 48 * 1000 / of_int DDIM_STEPS"
    by (rule t[THEN conjunct2, THEN conjunct2, THEN conjunct2, THEN conjunct1])
  have "fine_timestep_index 48 = 20 * 48"
    by (rule t[THEN conjunct2, THEN conjunct2, THEN conjunct2, THEN conjunct2,
          THEN conjunct2, THEN conjunct1])
  then have f: "fine_timestep_index 48 = 960" by simp
  have "\<forall>xs :: nat list. length xs = 1000 \<longrightarrow>
      py_index xs (fine_timestep_index 48) = Inr (xs ! nat (20 * 48))"
    by (rule t[THEN conjunct2, THEN conjunct2, THEN conjunct2, THEN conjunct2,
          THEN conjunct2, THEN conjunct2])
  then have "length (replicate 1000 (7::nat)) = 1000 \<longrightarrow>
      py_index (replicate 1000 (7::nat)) (fine_timestep_index 48)
        = Inr (replicate 1000 (7::nat) ! nat (20 * 48))"
    by (rule spec)
  then have i: "py_index (replicate 1000 (7::nat)) (fine_timestep_index 48) = Inr 7"
    by simp
  have q': "py_truediv (48 * 1000) DDIM_STEPS = 960"
    unfolding q by (simp add: DDIM_STEPS_def)
  have r': "py_round (py_truediv (48 * 1000) DDIM_STEPS) = 960"
    using r[symmetric] unfolding f .
  from h f q' r' i show ?thesis by (intro conjI)
qed

end
